theory Spec2Isabelle
  imports Complex_Main "HOL-Library.AList"
begin

section \<open>Python values and exceptions\<close>

text \<open>
  The service in \<^verbatim>\<open>api.py\<close> moves JSON data between two remote services, so the values
  it handles are the ones \<^verbatim>\<open>json.loads\<close> produces: \<^verbatim>\<open>None\<close>, booleans, integers, floats,
  strings, lists and dictionaries with string keys. A dictionary is an association list:
  Python dictionaries keep insertion order, and the order is visible in the response.
\<close>

datatype pyfloat = Finite real | PosInf | NegInf | NaN

datatype pyval =
    PNone
  | PBool bool
  | PInt int
  | PFloat pyfloat
  | PStr string
  | PList "pyval list"
  | PDict "(string \<times> pyval) list"

text \<open>
  Exceptions are values: a class and the text \<^verbatim>\<open>str(e)\<close> gives. Only subclasses of
  \<^verbatim>\<open>Exception\<close> are modelled, since that is what every handler of the file catches;
  \<open>OtherException\<close> stands for any class not listed (a \<^verbatim>\<open>requests\<close> connection error or
  timeout, an \<^verbatim>\<open>openai\<close> API error, ...). The texts of the interpreter's own errors are
  CPython's wording.
\<close>

datatype exn_class =
    JSONDecodeError | KeyError | TypeError | AttributeError | IndexError
  | NameError | ValueError | HTTPError | UnicodeEncodeError | OtherException

datatype exn = Exn (exn_class: exn_class) (exn_str: string)

definition and_then :: "exn + 'a \<Rightarrow> ('a \<Rightarrow> exn + 'b) \<Rightarrow> exn + 'b" where
  "and_then m f = (case m of Inl e \<Rightarrow> Inl e | Inr x \<Rightarrow> f x)"

fun map_exn :: "('a \<Rightarrow> exn + 'b) \<Rightarrow> 'a list \<Rightarrow> exn + 'b list" where
  "map_exn f [] = Inr []"
| "map_exn f (x # xs) =
     (case f x of
        Inl e \<Rightarrow> Inl e
      | Inr y \<Rightarrow> (case map_exn f xs of Inl e \<Rightarrow> Inl e | Inr ys \<Rightarrow> Inr (y # ys)))"

definition nl :: string where
  "nl = [CHR 0x0A]"

definition dquote :: string where
  "dquote = [CHR 0x22]"

definition squote :: string where
  "squote = [CHR 0x27]"

fun type_name :: "pyval \<Rightarrow> string" where
  "type_name PNone = ''NoneType''"
| "type_name (PBool _) = ''bool''"
| "type_name (PInt _) = ''int''"
| "type_name (PFloat _) = ''float''"
| "type_name (PStr _) = ''str''"
| "type_name (PList _) = ''list''"
| "type_name (PDict _) = ''dict''"

text \<open>Truth value of an object, as \<^verbatim>\<open>not x\<close> tests it.\<close>

fun py_truthy :: "pyval \<Rightarrow> bool" where
  "py_truthy PNone = False"
| "py_truthy (PBool b) = b"
| "py_truthy (PInt i) = (i \<noteq> 0)"
| "py_truthy (PFloat f) = (f \<noteq> Finite 0)"
| "py_truthy (PStr s) = (s \<noteq> [])"
| "py_truthy (PList xs) = (xs \<noteq> [])"
| "py_truthy (PDict kvs) = (kvs \<noteq> [])"

text \<open>\<^verbatim>\<open>len(x)\<close>: defined on strings, lists and dictionaries, a \<^verbatim>\<open>TypeError\<close> otherwise.\<close>

fun py_len :: "pyval \<Rightarrow> exn + nat" where
  "py_len (PStr s) = Inr (length s)"
| "py_len (PList xs) = Inr (length xs)"
| "py_len (PDict kvs) = Inr (length kvs)"
| "py_len v = Inl (Exn TypeError (''object of type '' @ squote @ type_name v @ squote @ '' has no len()''))"

text \<open>
  \<^verbatim>\<open>for doc in x\<close>: a list yields its elements, a string its characters, a dictionary its
  keys; anything else is not iterable.
\<close>

fun py_iter :: "pyval \<Rightarrow> exn + pyval list" where
  "py_iter (PList xs) = Inr xs"
| "py_iter (PStr s) = Inr (map (\<lambda>c. PStr [c]) s)"
| "py_iter (PDict kvs) = Inr (map (\<lambda>kv. PStr (fst kv)) kvs)"
| "py_iter v = Inl (Exn TypeError (squote @ type_name v @ squote @ '' object is not iterable''))"

text \<open>\<^verbatim>\<open>x[key]\<close> with a string key: a dictionary lookup, a \<^verbatim>\<open>TypeError\<close> on anything else.\<close>

fun py_getitem :: "pyval \<Rightarrow> string \<Rightarrow> exn + pyval" where
  "py_getitem (PDict kvs) k =
     (case map_of kvs k of
        None \<Rightarrow> Inl (Exn KeyError (squote @ k @ squote))
      | Some v \<Rightarrow> Inr v)"
| "py_getitem (PStr s) k = Inl (Exn TypeError (''string indices must be integers, not '' @ squote @ ''str'' @ squote))"
| "py_getitem (PList xs) k =
     Inl (Exn TypeError ''list indices must be integers or slices, not str'')"
| "py_getitem v k =
     Inl (Exn TypeError (squote @ type_name v @ squote @ '' object is not subscriptable''))"

text \<open>
  \<^verbatim>\<open>x[key] = value\<close> with a string key: a dictionary keeps the position of a key it
  already has and appends a new one; nothing else of these values accepts the assignment.
\<close>

fun py_setitem :: "pyval \<Rightarrow> string \<Rightarrow> pyval \<Rightarrow> exn + pyval" where
  "py_setitem (PDict kvs) k v = Inr (PDict (AList.update k v kvs))"
| "py_setitem (PList xs) k v =
     Inl (Exn TypeError ''list indices must be integers or slices, not str'')"
| "py_setitem x k v =
     Inl (Exn TypeError
       (squote @ type_name x @ squote @ '' object does not support item assignment''))"

text \<open>\<^verbatim>\<open>x.get(key, default)\<close>: a method of dictionaries only.\<close>

fun py_get :: "pyval \<Rightarrow> string \<Rightarrow> pyval \<Rightarrow> exn + pyval" where
  "py_get (PDict kvs) k d = Inr (case map_of kvs k of None \<Rightarrow> d | Some v \<Rightarrow> v)"
| "py_get x k d =
     Inl (Exn AttributeError
       (squote @ type_name x @ squote @ '' object has no attribute '' @ squote @ ''get'' @ squote))"

text \<open>\<^verbatim>\<open>xs[0]\<close> on a list.\<close>

definition py_first :: "'a list \<Rightarrow> exn + 'a" where
  "py_first xs = (case xs of [] \<Rightarrow> Inl (Exn IndexError ''list index out of range'') | x # _ \<Rightarrow> Inr x)"

text \<open>\<^verbatim>\<open>sep.join(parts)\<close>.\<close>

fun str_join :: "string \<Rightarrow> string list \<Rightarrow> string" where
  "str_join sep [] = []"
| "str_join sep [x] = x"
| "str_join sep (x # y # ys) = x @ sep @ str_join sep (y # ys)"

fun show_nat :: "nat \<Rightarrow> string" where
  "show_nat n =
     (if n < 10 then [char_of (48 + n)]
      else show_nat (n div 10) @ [char_of (48 + n mod 10)])"

declare show_nat.simps [simp del]

definition is_ascii :: "char \<Rightarrow> bool" where
  "is_ascii c = (of_char c < (128::nat))"

section \<open>The libraries and services the module calls\<close>

text \<open>
  What \<^verbatim>\<open>requests.post\<close> returns: the status line and the body. \<^verbatim>\<open>raise_for_status\<close>
  raises for the statuses 400 to 599, as the \<^verbatim>\<open>requests\<close> library defines it.
\<close>

record response =
  status_code :: nat
  reason :: string
  url :: string
  resp_text :: string

definition raise_for_status :: "response \<Rightarrow> exn + unit" where
  "raise_for_status r =
     (if 400 \<le> status_code r \<and> status_code r < 500 then
        Inl (Exn HTTPError
          (show_nat (status_code r) @ '' Client Error: '' @ reason r @ '' for url: '' @ url r))
      else if 500 \<le> status_code r \<and> status_code r < 600 then
        Inl (Exn HTTPError
          (show_nat (status_code r) @ '' Server Error: '' @ reason r @ '' for url: '' @ url r))
      else Inr ())"

text \<open>
  The request \<^verbatim>\<open>openai.chat.completions.create\<close> is called with, and its answer: for each
  choice the \<^verbatim>\<open>message.content\<close>, which the client library types as an optional string.
\<close>

record chat_request =
  model :: string
  messages :: "(string \<times> string) list"
  temperature :: int

record chat_completion =
  choices :: "string option list"

text \<open>
  Everything outside the repository that a request depends on: the two remote calls, each
  of which raises or answers, the JSON parser of the standard library, \<^verbatim>\<open>str\<close> on a
  value that is not a string (an f-string field prints a string as it is), and the
  standard output the log lines go to: the characters beyond ASCII its encoding has, and
  the description its codec gives of a text it cannot encode.
\<close>

record runtime =
  requests_post :: "string \<Rightarrow> pyval \<Rightarrow> nat \<Rightarrow> exn + response"
  chat_completions_create :: "chat_request \<Rightarrow> exn + chat_completion"
  json_loads :: "string \<Rightarrow> exn + pyval"
  builtin_str :: "pyval \<Rightarrow> string"
  stdout_encodes :: "char \<Rightarrow> bool"
  encode_error_text :: "string \<Rightarrow> string"

definition py_format :: "runtime \<Rightarrow> pyval \<Rightarrow> string" where
  "py_format w v = (case v of PStr s \<Rightarrow> s | _ \<Rightarrow> builtin_str w v)"

definition response_json :: "runtime \<Rightarrow> response \<Rightarrow> exn + pyval" where
  "response_json w r = json_loads w (resp_text r)"

text \<open>
  \<^verbatim>\<open>print(a, b)\<close> on strings: the arguments joined by a space and ended by a newline
  are written to the standard output, whose encoder is strict: a character the encoding
  lacks raises \<^verbatim>\<open>UnicodeEncodeError\<close>. Every encoding has the ASCII characters. Other
  failures of the stream (a closed file, a broken pipe) are not modelled.
\<close>

definition py_print :: "runtime \<Rightarrow> string list \<Rightarrow> exn + unit" where
  "py_print w args =
     (let line = str_join '' '' args @ nl in
      if list_all (\<lambda>c. is_ascii c \<or> stdout_encodes w c) line then Inr ()
      else Inl (Exn UnicodeEncodeError (encode_error_text w line)))"

section \<open>Module initialisation (lines 3 to 18)\<close>

text \<open>
  What a global name of the module is bound to. The import statements of lines 3 to 10
  bind eight names; line 15 calls \<^verbatim>\<open>load_dotenv()\<close>, which adds the variables of a
  \<^verbatim>\<open>.env\<close> file to the process environment without replacing one that is set, and binds
  no name. Line 16 then evaluates the name \<^verbatim>\<open>OPENAI_API_KEY\<close>: a name is looked up
  among the module's globals (no built-in has this name), and an unbound name raises
  \<^verbatim>\<open>NameError\<close>.
\<close>

datatype pyobj = Module string | Class string | Callable string | Value pyval

definition module_globals :: "(string \<times> pyobj) list" where
  "module_globals =
     [(''FastAPI'', Class ''fastapi.FastAPI''),
      (''BaseModel'', Class ''pydantic.BaseModel''),
      (''requests'', Module ''requests''),
      (''openai'', Module ''openai''),
      (''json'', Module ''json''),
      (''os'', Module ''os''),
      (''run_in_threadpool'', Callable ''fastapi.concurrency.run_in_threadpool''),
      (''load_dotenv'', Callable ''dotenv.load_dotenv'')]"

definition load_name :: "(string \<times> pyobj) list \<Rightarrow> string \<Rightarrow> exn + pyobj" where
  "load_name globals x =
     (case map_of globals x of
        None \<Rightarrow> Inl (Exn NameError (''name '' @ squote @ x @ squote @ '' is not defined''))
      | Some v \<Rightarrow> Inr v)"

definition load_dotenv :: "(string \<rightharpoonup> string) \<Rightarrow> (string \<rightharpoonup> string) \<Rightarrow> (string \<rightharpoonup> string)" where
  "load_dotenv dotenv environ = dotenv ++ environ"

fun obj_truthy :: "pyobj \<Rightarrow> bool" where
  "obj_truthy (Value v) = py_truthy v"
| "obj_truthy _ = True"

text \<open>
  The result of importing the module, given the \<^verbatim>\<open>.env\<close> file and the process
  environment: the exception that aborts the import, or the value stored in
  \<^verbatim>\<open>openai.api_key\<close>.
\<close>

definition module_init :: "(string \<rightharpoonup> string) \<Rightarrow> (string \<rightharpoonup> string) \<Rightarrow> exn + pyobj" where
  "module_init dotenv environ =
     (let environ' = load_dotenv dotenv environ in
      and_then (load_name module_globals ''OPENAI_API_KEY'') (\<lambda>api_key.
        if \<not> obj_truthy api_key then
          Inl (Exn ValueError ''OPENAI_API_KEY is not set in environment variables.'')
        else Inr api_key))"

section \<open>Configuration and the request model (lines 23 to 35)\<close>

definition KB_SEARCH_URL :: string where
  "KB_SEARCH_URL = ''https://squid-app-7q77b.ondigitalocean.app/api/api/kb/factcheck/search''"

definition TOP_K :: int where
  "TOP_K = 5"

record SolveRequest =
  claim :: string

section \<open>\<^verbatim>\<open>kb_search\<close> (lines 40 to 50)\<close>

text \<open>
  The body of the \<^verbatim>\<open>try\<close>: the POST with a timeout of 10 seconds, the status check, the
  decoding of the body, the \<^verbatim>\<open>results\<close> field with the default \<^verbatim>\<open>[]\<close>, and the
  log line of line 46 with its \<^verbatim>\<open>len(results)\<close>.
\<close>

definition kb_search_try :: "runtime \<Rightarrow> string \<Rightarrow> int \<Rightarrow> exn + pyval" where
  "kb_search_try w query top_k =
     (let payload = PDict [(''query'', PStr query), (''top_k'', PInt top_k)] in
      and_then (requests_post w KB_SEARCH_URL payload 10) (\<lambda>resp.
      and_then (raise_for_status resp) (\<lambda>_.
      and_then (response_json w resp) (\<lambda>body.
      and_then (py_get body ''results'' (PList [])) (\<lambda>results.
      and_then (py_len results) (\<lambda>n.
      and_then (py_print w [''KB search returned '' @ show_nat n @ '' documents.'']) (\<lambda>_.
      Inr results)))))))"

text \<open>
  The handler \<^verbatim>\<open>except Exception\<close> logs the exception (line 49) and returns \<^verbatim>\<open>[]\<close>.
  An exception of the log line itself leaves the function.
\<close>

definition kb_search :: "runtime \<Rightarrow> string \<Rightarrow> int \<Rightarrow> exn + pyval" where
  "kb_search w query top_k =
     (case kb_search_try w query top_k of
        Inl e \<Rightarrow>
          and_then (py_print w [''KB Search error:'', exn_str e]) (\<lambda>_.
          Inr (PList []))
      | Inr results \<Rightarrow> Inr results)"

section \<open>\<^verbatim>\<open>analyze_with_gpt\<close> (lines 55 to 107)\<close>

text \<open>Line 56: \<^verbatim>\<open>[doc["doc_id"] for doc in docs]\<close>.\<close>

definition doc_ids :: "pyval \<Rightarrow> exn + pyval list" where
  "doc_ids docs = and_then (py_iter docs) (map_exn (\<lambda>doc. py_getitem doc ''doc_id''))"

text \<open>
  Lines 57, 93 and 104: \<^verbatim>\<open>[f"{doc['doc_id']}: {doc['content']}" for doc in docs]\<close>, the
  two fields of a document read in this order.
\<close>

definition doc_line :: "runtime \<Rightarrow> pyval \<Rightarrow> exn + string" where
  "doc_line w doc =
     and_then (py_getitem doc ''doc_id'') (\<lambda>i.
     and_then (py_getitem doc ''content'') (\<lambda>c.
     Inr (py_format w i @ '': '' @ py_format w c)))"

definition doc_lines :: "runtime \<Rightarrow> pyval \<Rightarrow> exn + string list" where
  "doc_lines w docs = and_then (py_iter docs) (map_exn (doc_line w))"

text \<open>Lines 59 to 70: the prompt, a triple-quoted f-string.\<close>

definition prompt_of :: "string \<Rightarrow> string \<Rightarrow> string" where
  "prompt_of claim' context_text =
     nl @ ''You are a fact-checking assistant. Analyze the claim below using the context provided.''
     @ nl @ ''Return a JSON with the following keys:''
     @ nl @ ''- thought_process: your reasoning about the claim''
     @ nl @ ''- final_answer: True, False, or Partially True''
     @ nl @ ''- citation: relevant document IDs and quotes supporting your verdict''
     @ nl
     @ nl @ ''Claim: '' @ dquote @ claim' @ dquote
     @ nl
     @ nl @ ''Context:''
     @ nl @ context_text
     @ nl"

text \<open>Lines 74 to 81: the arguments of the completion call.\<close>

definition completion_request :: "string \<Rightarrow> chat_request" where
  "completion_request prompt =
     \<lparr>model = ''gpt-4'',
      messages = [(''system'', ''You are a careful fact-checker.''), (''user'', prompt)],
      temperature = 0\<rparr>"

text \<open>
  Lines 86 to 94: \<^verbatim>\<open>json.loads(gpt_output)\<close>, where only \<^verbatim>\<open>json.JSONDecodeError\<close> is
  handled, by a log line and the dictionary built from the raw text. A content that is \<^verbatim>\<open>None\<close> makes
  \<^verbatim>\<open>json.loads\<close> raise \<^verbatim>\<open>TypeError\<close>, which this handler lets through.
\<close>

definition parse_output :: "runtime \<Rightarrow> pyval \<Rightarrow> string option \<Rightarrow> exn + pyval" where
  "parse_output w docs gpt_output =
     (case gpt_output of
        None \<Rightarrow>
          Inl (Exn TypeError ''the JSON object must be str, bytes or bytearray, not NoneType'')
      | Some s \<Rightarrow>
          (case json_loads w s of
             Inr result \<Rightarrow> Inr result
           | Inl e \<Rightarrow>
               if exn_class e = JSONDecodeError then
                 and_then (py_print w [''GPT output is not valid JSON, using fallback.'']) (\<lambda>_.
                 and_then (doc_lines w docs) (\<lambda>ls.
                 Inr (PDict
                   [(''thought_process'', PStr s),
                    (''final_answer'', PStr ''Partially True''),
                    (''citation'', PStr (str_join ''; '' ls))])))
               else Inl e))"

text \<open>Lines 73 to 97: the body of the outer \<^verbatim>\<open>try\<close>.\<close>

definition analyze_try :: "runtime \<Rightarrow> string \<Rightarrow> pyval \<Rightarrow> pyval list \<Rightarrow> exn + pyval" where
  "analyze_try w prompt docs retrieved_context_ids =
     and_then (chat_completions_create w (completion_request prompt)) (\<lambda>response.
     and_then (py_first (choices response)) (\<lambda>gpt_output.
     and_then (py_print w [''GPT output received.'']) (\<lambda>_.
     and_then (parse_output w docs gpt_output) (\<lambda>result.
     py_setitem result ''retrieved_context_ids'' (PList retrieved_context_ids)))))"

text \<open>
  The whole function. Lines 56 and 57 stand before the \<^verbatim>\<open>try\<close>, so an exception there
  leaves the function; the handler of lines 99 to 107 logs the exception and builds its
  citation again from the documents.
\<close>

definition analyze_with_gpt :: "runtime \<Rightarrow> string \<Rightarrow> pyval \<Rightarrow> exn + pyval" where
  "analyze_with_gpt w claim' docs =
     and_then (doc_ids docs) (\<lambda>retrieved_context_ids.
     and_then (doc_lines w docs) (\<lambda>ls.
       let context_text = str_join (nl @ nl) ls;
           prompt = prompt_of claim' context_text
       in
         (case analyze_try w prompt docs retrieved_context_ids of
            Inr result \<Rightarrow> Inr result
          | Inl e \<Rightarrow>
              and_then (py_print w [''GPT error:'', exn_str e]) (\<lambda>_.
              and_then (doc_lines w docs) (\<lambda>ls'.
              Inr (PDict
                [(''thought_process'', PStr []),
                 (''final_answer'', PStr ''Partially True''),
                 (''citation'', PStr (str_join ''; '' ls')),
                 (''retrieved_context_ids'', PList retrieved_context_ids),
                 (''error'', PStr (exn_str e))]))))))"

section \<open>The \<^verbatim>\<open>/solve\<close> endpoint (lines 112 to 139)\<close>

text \<open>
  Lines 117 to 129, the body of the \<^verbatim>\<open>try\<close>. \<^verbatim>\<open>run_in_threadpool\<close> runs the call on
  a worker thread and hands back its result or its exception, so it is the call itself here.
  The value is what the handler hands to the framework; the encoding of it as an HTTP
  response is the framework's and not part of the module.
\<close>

definition solve_try :: "runtime \<Rightarrow> SolveRequest \<Rightarrow> exn + pyval" where
  "solve_try w request =
     and_then (kb_search w (claim request) TOP_K) (\<lambda>docs.
       if \<not> py_truthy docs then
         and_then (py_print w [''No KB documents found, returning fallback.'']) (\<lambda>_.
         Inr (PDict
           [(''thought_process'', PStr ''No documents found in KB.''),
            (''final_answer'', PStr ''Partially True''),
            (''citation'', PStr []),
            (''retrieved_context_ids'', PList [])]))
       else analyze_with_gpt w (claim request) docs)"

text \<open>
  The whole handler: the log line of line 115, which stands before the \<^verbatim>\<open>try\<close>, the
  \<^verbatim>\<open>try\<close>, and the handler \<^verbatim>\<open>except Exception\<close> of lines 131 to 139 with its own
  log line. An exception of either log line leaves the handler.
\<close>

definition solve_endpoint :: "runtime \<Rightarrow> SolveRequest \<Rightarrow> exn + pyval" where
  "solve_endpoint w request =
     and_then (py_print w [''Received claim:'', claim request]) (\<lambda>_.
       (case solve_try w request of
          Inr result \<Rightarrow> Inr result
        | Inl e \<Rightarrow>
            and_then (py_print w [''Endpoint error:'', exn_str e]) (\<lambda>_.
            Inr (PDict
              [(''thought_process'', PStr []),
               (''final_answer'', PStr ''Partially True''),
               (''citation'', PStr []),
               (''retrieved_context_ids'', PList []),
               (''error'', PStr (exn_str e))]))))"

section \<open>Documents and outcomes, as the specification names them\<close>

text \<open>
  A Document of the specification has an identifier and a content. On the values of the
  program that is a dictionary with the keys \<^verbatim>\<open>doc_id\<close> and \<^verbatim>\<open>content\<close>; the values
  under them are not restricted to strings here. \<open>document_text\<close> is the line
  \<^verbatim>\<open>"{doc_id}: {content}"\<close> of one document.
\<close>

definition field :: "string \<Rightarrow> pyval \<Rightarrow> pyval option" where
  "field k d = (case d of PDict kvs \<Rightarrow> map_of kvs k | _ \<Rightarrow> None)"

definition is_document :: "pyval \<Rightarrow> bool" where
  "is_document d = (field ''doc_id'' d \<noteq> None \<and> field ''content'' d \<noteq> None)"

definition document_id :: "pyval \<Rightarrow> pyval" where
  "document_id d = the (field ''doc_id'' d)"

definition document_text :: "runtime \<Rightarrow> pyval \<Rightarrow> string" where
  "document_text w d =
     py_format w (the (field ''doc_id'' d)) @ '': '' @ py_format w (the (field ''content'' d))"

fun is_dict :: "pyval \<Rightarrow> bool" where
  "is_dict (PDict _) = True"
| "is_dict _ = False"

text \<open>
  Strings joined by a separator, said without recursion: the first string, then every
  further string with the separator before it.
\<close>

definition separated_by :: "string \<Rightarrow> string list \<Rightarrow> string" where
  "separated_by sep parts =
     (case parts of [] \<Rightarrow> [] | p # ps \<Rightarrow> p @ concat (map (\<lambda>q. sep @ q) ps))"

text \<open>
  The request the completion service receives for a claim and a list of documents, and
  the dictionary the handler of lines 99 to 107 returns.
\<close>

definition issued_request :: "runtime \<Rightarrow> string \<Rightarrow> pyval list \<Rightarrow> chat_request" where
  "issued_request w claim' ds =
     completion_request (prompt_of claim' (str_join (nl @ nl) (map (document_text w) ds)))"

definition error_fallback :: "runtime \<Rightarrow> pyval list \<Rightarrow> string \<Rightarrow> pyval" where
  "error_fallback w ds msg =
     PDict
       [(''thought_process'', PStr []),
        (''final_answer'', PStr ''Partially True''),
        (''citation'', PStr (str_join ''; '' (map (document_text w) ds))),
        (''retrieved_context_ids'', PList (map document_id ds)),
        (''error'', PStr msg)]"

text \<open>
  The log line of the handler of lines 99 to 107 is written, when that handler runs: the
  \<^verbatim>\<open>try\<close> of \<^verbatim>\<open>analyze_with_gpt\<close> returns, or the text of the exception it raises can
  be printed.
\<close>

definition error_logged :: "runtime \<Rightarrow> string \<Rightarrow> pyval list \<Rightarrow> bool" where
  "error_logged w claim' ds =
     (case analyze_try w (prompt_of claim' (str_join (nl @ nl) (map (document_text w) ds)))
             (PList ds) (map document_id ds) of
        Inl e \<Rightarrow> py_print w [''GPT error:'', exn_str e] = Inr ()
      | Inr _ \<Rightarrow> True)"

text \<open>
  The exception of a failed search: the one the POST raised (a transport failure or a
  timeout), or the one \<^verbatim>\<open>raise_for_status\<close> raises for a status from 400 to 599. A search
  is genuinely empty when the service answered 200 with a \<^verbatim>\<open>results\<close> field that is the
  empty list.
\<close>

definition search_failure :: "runtime \<Rightarrow> string \<Rightarrow> int \<Rightarrow> exn option" where
  "search_failure w query top_k =
     (case requests_post w KB_SEARCH_URL (PDict [(''query'', PStr query), (''top_k'', PInt top_k)]) 10 of
        Inl e \<Rightarrow> Some e
      | Inr resp \<Rightarrow>
          if 400 \<le> status_code resp \<and> status_code resp < 600 then
            (case raise_for_status resp of Inl e \<Rightarrow> Some e | Inr _ \<Rightarrow> None)
          else None)"

definition search_empty :: "runtime \<Rightarrow> string \<Rightarrow> int \<Rightarrow> bool" where
  "search_empty w query top_k =
     (case requests_post w KB_SEARCH_URL (PDict [(''query'', PStr query), (''top_k'', PInt top_k)]) 10 of
        Inl e \<Rightarrow> False
      | Inr resp \<Rightarrow>
          status_code resp = 200 \<and>
          (case json_loads w (resp_text resp) of
             Inr (PDict kvs) \<Rightarrow> map_of kvs ''results'' = Some (PList [])
           | _ \<Rightarrow> False))"

section \<open>Concrete runs\<close>

text \<open>
  Mocks of the two services and of the parser, for the scenarios of the specification:
  a knowledge base that answers with a fixed response or exception, a completion service
  that does the same, and a parser that knows the few texts the scenarios use and
  rejects every other text. Like the parser of the standard library it accepts the text
  NaN. The standard output of a mock encodes every character; \<open>ascii_stdout\<close> turns it
  into one that has the ASCII characters only, and whose codec describes a text it cannot
  encode by the reason alone. \<open>cafe\<close> is a word with one character beyond ASCII.
\<close>

definition mock_runtime ::
  "(exn + response) \<Rightarrow> (exn + chat_completion) \<Rightarrow> (string \<Rightarrow> exn + pyval) \<Rightarrow> runtime" where
  "mock_runtime kb llm loads =
     \<lparr>requests_post = (\<lambda>_ _ _. kb),
      chat_completions_create = (\<lambda>_. llm),
      json_loads = loads,
      builtin_str = (\<lambda>_. ''<object>''),
      stdout_encodes = (\<lambda>_. True),
      encode_error_text = (\<lambda>_. ''character maps to <undefined>'')\<rparr>"

definition ascii_stdout :: "runtime \<Rightarrow> runtime" where
  "ascii_stdout w =
     w\<lparr>stdout_encodes := (\<lambda>_. False),
       encode_error_text := (\<lambda>_. ''ordinal not in range(128)'')\<rparr>"

definition http_response :: "nat \<Rightarrow> string \<Rightarrow> string \<Rightarrow> response" where
  "http_response code phrase body =
     \<lparr>status_code = code, reason = phrase, url = KB_SEARCH_URL, resp_text = body\<rparr>"

definition json_string :: "string \<Rightarrow> string" where
  "json_string s = dquote @ s @ dquote"

definition empty_results_body :: string where
  "empty_results_body = ''{'' @ json_string ''results'' @ '': []}''"

definition one_result_body :: string where
  "one_result_body =
     ''{'' @ json_string ''results'' @ '': [{'' @ json_string ''doc_id'' @ '': ''
     @ json_string ''D1'' @ '', '' @ json_string ''content'' @ '': ''
     @ json_string ''Water boils at 100C at standard atmospheric pressure.'' @ ''}]}''"

definition untitled_result_body :: string where
  "untitled_result_body =
     ''{'' @ json_string ''results'' @ '': [{'' @ json_string ''content'' @ '': ''
     @ json_string ''Water boils at 100C at standard atmospheric pressure.'' @ ''}]}''"

definition verdict_text :: string where
  "verdict_text =
     ''{'' @ json_string ''thought_process'' @ '': '' @ json_string ''...'' @ '', ''
     @ json_string ''final_answer'' @ '': '' @ json_string ''True'' @ '', ''
     @ json_string ''citation'' @ '': '' @ json_string ''D1'' @ ''}''"

definition D1 :: pyval where
  "D1 = PDict [(''doc_id'', PStr ''D1''),
               (''content'', PStr ''Water boils at 100C at standard atmospheric pressure.'')]"

definition D2 :: pyval where
  "D2 = PDict [(''doc_id'', PStr ''D2''),
               (''content'', PStr ''At altitude water boils below 100C.'')]"

definition untitled_doc :: pyval where
  "untitled_doc =
     PDict [(''content'', PStr ''Water boils at 100C at standard atmospheric pressure.'')]"

definition mock_loads :: "string \<Rightarrow> exn + pyval" where
  "mock_loads s =
     (if s = empty_results_body then Inr (PDict [(''results'', PList [])])
      else if s = one_result_body then Inr (PDict [(''results'', PList [D1])])
      else if s = untitled_result_body then Inr (PDict [(''results'', PList [untitled_doc])])
      else if s = verdict_text then
        Inr (PDict [(''thought_process'', PStr ''...''),
                    (''final_answer'', PStr ''True''),
                    (''citation'', PStr ''D1'')])
      else if s = ''[1, 2]'' then Inr (PList [PInt 1, PInt 2])
      else if s = ''NaN'' then Inr (PFloat NaN)
      else Inl (Exn JSONDecodeError ''Expecting value: line 1 column 1 (char 0)''))"

definition cafe :: string where
  "cafe = ''caf'' @ [CHR 0xE9]"

definition water_runtime :: "(exn + chat_completion) \<Rightarrow> runtime" where
  "water_runtime llm = mock_runtime (Inr (http_response 200 ''OK'' one_result_body)) llm mock_loads"

definition redirect_runtime :: runtime where
  "redirect_runtime =
     mock_runtime (Inr (http_response 300 ''Multiple Choices'' one_result_body))
       (Inr \<lparr>choices = []\<rparr>) mock_loads"

definition untitled_runtime :: runtime where
  "untitled_runtime =
     mock_runtime (Inr (http_response 200 ''OK'' untitled_result_body))
       (Inr \<lparr>choices = [Some verdict_text]\<rparr>) mock_loads"

definition unavailable_runtime :: runtime where
  "unavailable_runtime =
     mock_runtime (Inr (http_response 503 ''Service Unavailable'' []))
       (Inr \<lparr>choices = []\<rparr>) mock_loads"

definition unreachable_runtime :: runtime where
  "unreachable_runtime =
     mock_runtime (Inl (Exn OtherException (''No route to '' @ cafe)))
       (Inr \<lparr>choices = []\<rparr>) mock_loads"

definition empty_kb_runtime :: runtime where
  "empty_kb_runtime =
     mock_runtime (Inr (http_response 200 ''OK'' empty_results_body))
       (Inr \<lparr>choices = []\<rparr>) mock_loads"

definition water_request :: SolveRequest where
  "water_request = \<lparr>claim = ''Water boils at 100C at sea level''\<rparr>"

section \<open>Basic facts\<close>

lemma and_then_Inr [simp]: "and_then (Inr x) f = f x"
  by (simp add: and_then_def)

lemma and_then_Inl [simp]: "and_then (Inl e) f = Inl e"
  by (simp add: and_then_def)

lemma getitem_field:
  "field k d = Some v \<Longrightarrow> py_getitem d k = Inr v"
  by (cases d) (simp_all add: field_def)

lemma map_exn_total:
  "list_all (\<lambda>x. f x = Inr (g x)) xs \<Longrightarrow> map_exn f xs = Inr (map g xs)"
  by (induction xs) simp_all

lemma doc_ids_documents:
  "list_all is_document ds \<Longrightarrow> doc_ids (PList ds) = Inr (map document_id ds)"
  unfolding doc_ids_def
  by (auto simp: list_all_iff is_document_def document_id_def getitem_field intro!: map_exn_total)

lemma doc_line_document:
  "is_document d \<Longrightarrow> doc_line w d = Inr (document_text w d)"
  by (auto simp: is_document_def doc_line_def document_text_def getitem_field)

lemma doc_lines_documents:
  "list_all is_document ds \<Longrightarrow> doc_lines w (PList ds) = Inr (map (document_text w) ds)"
  unfolding doc_lines_def
  by (auto simp: list_all_iff doc_line_document intro!: map_exn_total)

lemma setitem_not_dict: "\<not> is_dict v \<Longrightarrow> \<exists>e. py_setitem v k x = Inl e"
  by (cases v) simp_all

lemma setitem_ids:
  "py_setitem v ''retrieved_context_ids'' x = Inr r \<Longrightarrow>
   \<exists>kvs. r = PDict kvs \<and> map_of kvs ''retrieved_context_ids'' = Some x"
  by (cases v) (auto simp: update_Some_unfold)

text \<open>
  The join of the program is the join by a separator.
\<close>

lemma str_join_separated: "str_join sep parts = separated_by sep parts"
  by (induction sep parts rule: str_join.induct) (simp_all add: separated_by_def)

text \<open>
  A log line of ASCII characters is written on every standard output: the fixed lines,
  the line with the number of documents, and the line of an exception of an item
  assignment.
\<close>

lemma str_join_ascii:
  "list_all is_ascii sep \<Longrightarrow> list_all (list_all is_ascii) parts \<Longrightarrow>
   list_all is_ascii (str_join sep parts)"
  by (induction sep parts rule: str_join.induct) simp_all

lemma ascii_literal [simp]: "is_ascii (Char b0 b1 b2 b3 b4 b5 b6 False)"
  by (simp add: is_ascii_def)

lemma print_ascii [simp]:
  "list_all (list_all is_ascii) args \<Longrightarrow> py_print w args = Inr ()"
proof -
  assume "list_all (list_all is_ascii) args"
  then have "list_all is_ascii (str_join '' '' args @ nl)"
    by (simp add: str_join_ascii nl_def)
  then have "list_all (\<lambda>c. is_ascii c \<or> stdout_encodes w c) (str_join '' '' args @ nl)"
    by (simp add: list_all_iff)
  then show ?thesis
    by (simp add: py_print_def)
qed

lemma print_any:
  "\<forall>c. stdout_encodes w c \<Longrightarrow> py_print w args = Inr ()"
  by (simp add: py_print_def list_all_iff)

lemma show_nat_ascii [simp]: "list_all is_ascii (show_nat n)"
proof (induction n rule: show_nat.induct)
  case (1 n)
  have digit: "is_ascii (char_of (48 + k))" if "k < 10" for k :: nat
    using that by (simp add: is_ascii_def)
  show ?case
  proof (cases "n < 10")
    case True
    then show ?thesis by (subst show_nat.simps) (simp add: digit)
  next
    case False
    then show ?thesis using 1 by (subst show_nat.simps) (simp add: digit)
  qed
qed

lemma type_name_ascii [simp]: "list_all is_ascii (type_name v)"
  by (cases v) simp_all

lemma setitem_error_ascii:
  "py_setitem v k x = Inl e \<Longrightarrow> list_all is_ascii (exn_str e)"
  by (cases v) (auto simp: squote_def)

lemma print_setitem_error:
  "py_setitem v k x = Inl e \<Longrightarrow> py_print w [''GPT error:'', exn_str e] = Inr ()"
  by (simp add: setitem_error_ascii)

text \<open>
  On a list of documents the two comprehensions before the \<^verbatim>\<open>try\<close> succeed, and the
  function is the \<^verbatim>\<open>try\<close> with its handler.
\<close>

lemma analyze_documents:
  assumes "list_all is_document ds"
  shows "analyze_with_gpt w c (PList ds) =
     (case analyze_try w (prompt_of c (str_join (nl @ nl) (map (document_text w) ds)))
             (PList ds) (map document_id ds) of
        Inr result \<Rightarrow> Inr result
      | Inl e \<Rightarrow>
          and_then (py_print w [''GPT error:'', exn_str e]) (\<lambda>_.
          Inr (error_fallback w ds (exn_str e))))"
  using assms
  by (simp add: analyze_with_gpt_def doc_ids_documents doc_lines_documents error_fallback_def
      split: sum.splits)

lemma analyze_valid_object:
  assumes "list_all is_document ds"
    and "chat_completions_create w (issued_request w c ds) = Inr response"
    and "choices response = Some gpt_output # rest"
    and "json_loads w gpt_output = Inr (PDict kvs)"
  shows "analyze_with_gpt w c (PList ds) =
     Inr (PDict (AList.update ''retrieved_context_ids'' (PList (map document_id ds)) kvs))"
  using assms
  by (simp add: analyze_documents analyze_try_def issued_request_def py_first_def
      parse_output_def)

lemma kb_search_failure:
  "search_failure w q k = Some e \<Longrightarrow> py_print w [''KB Search error:'', exn_str e] = Inr () \<Longrightarrow>
   kb_search w q k = Inr (PList [])"
  by (auto simp: search_failure_def kb_search_def kb_search_try_def raise_for_status_def
      split: sum.splits if_splits)

lemma kb_search_empty: "search_empty w q k \<Longrightarrow> kb_search w q k = Inr (PList [])"
  by (auto simp: search_empty_def kb_search_def kb_search_try_def raise_for_status_def
      response_json_def split: sum.splits pyval.splits)

text \<open>
  The mocks at the texts of the scenarios.
\<close>

lemma mock_loads_verdict:
  "mock_loads verdict_text =
     Inr (PDict [(''thought_process'', PStr ''...''),
                 (''final_answer'', PStr ''True''),
                 (''citation'', PStr ''D1'')])"
  by (simp add: mock_loads_def verdict_text_def empty_results_body_def one_result_body_def
      untitled_result_body_def json_string_def dquote_def)

lemma mock_loads_one_result:
  "mock_loads one_result_body = Inr (PDict [(''results'', PList [D1])])"
  by (simp add: mock_loads_def empty_results_body_def one_result_body_def json_string_def
      dquote_def)


lemma mock_loads_array: "mock_loads ''[1, 2]'' = Inr (PList [PInt 1, PInt 2])"
  by (simp add: mock_loads_def verdict_text_def empty_results_body_def one_result_body_def
      untitled_result_body_def json_string_def dquote_def)

lemma mock_loads_nan: "mock_loads ''NaN'' = Inr (PFloat NaN)"
  by (simp add: mock_loads_def verdict_text_def empty_results_body_def one_result_body_def
      untitled_result_body_def json_string_def dquote_def)

lemma mock_loads_prose:
  "mock_loads ''The claim is true.'' =
     Inl (Exn JSONDecodeError ''Expecting value: line 1 column 1 (char 0)'')"
  by (simp add: mock_loads_def verdict_text_def empty_results_body_def one_result_body_def
      untitled_result_body_def json_string_def dquote_def)

lemma mock_fields [simp]:
  "requests_post (mock_runtime kb llm loads) = (\<lambda>_ _ _. kb)"
  "chat_completions_create (mock_runtime kb llm loads) = (\<lambda>_. llm)"
  "json_loads (mock_runtime kb llm loads) = loads"
  "builtin_str (mock_runtime kb llm loads) = (\<lambda>_. ''<object>'')"
  by (simp_all add: mock_runtime_def)

lemma mock_print [simp]: "py_print (mock_runtime kb llm loads) args = Inr ()"
  by (rule print_any) (simp add: mock_runtime_def)

lemma ascii_stdout_fields [simp]:
  "requests_post (ascii_stdout w) = requests_post w"
  "chat_completions_create (ascii_stdout w) = chat_completions_create w"
  "json_loads (ascii_stdout w) = json_loads w"
  "builtin_str (ascii_stdout w) = builtin_str w"
  "stdout_encodes (ascii_stdout w) = (\<lambda>_. False)"
  "encode_error_text (ascii_stdout w) = (\<lambda>_. ''ordinal not in range(128)'')"
  by (simp_all add: ascii_stdout_def)

lemma water_kb_search:
  "kb_search (water_runtime llm) q k = Inr (PList [D1])"
  by (simp add: kb_search_def kb_search_try_def water_runtime_def
      http_response_def raise_for_status_def response_json_def mock_loads_one_result)

lemma documents: "list_all is_document [D1, D2]"
  by (simp add: is_document_def field_def D1_def D2_def)

lemma D1_document: "list_all is_document [D1]"
  by (simp add: is_document_def field_def D1_def)

section \<open>The empty knowledge base\<close>

text \<open>
  Claim C1. For a request that has passed the log line of line 115, so that the search is
  made: whenever the knowledge-base search returns the empty list, the endpoint returns
  exactly the fixed fallback, \<^verbatim>\<open>thought_process\<close> "No documents found in KB.",
  \<^verbatim>\<open>final_answer\<close> "Partially True", an empty \<^verbatim>\<open>citation\<close>, an empty
  \<^verbatim>\<open>retrieved_context_ids\<close>, and no \<^verbatim>\<open>error\<close> key.
\<close>

theorem solve_no_documents:
  assumes "py_print w [''Received claim:'', claim request] = Inr ()"
    and "kb_search w (claim request) TOP_K = Inr (PList [])"
  shows "solve_endpoint w request =
     Inr (PDict
       [(''thought_process'', PStr ''No documents found in KB.''),
        (''final_answer'', PStr ''Partially True''),
        (''citation'', PStr []),
        (''retrieved_context_ids'', PList [])])"
  using assms by (simp add: solve_endpoint_def solve_try_def)

text \<open>
  The scenario of the specification: the claim "The Earth is flat" against a knowledge base
  that yields no document (here because the service answers 503), on an ASCII standard
  output.
\<close>

theorem solve_no_documents_witness:
  "py_print (ascii_stdout unavailable_runtime) [''Received claim:'', ''The Earth is flat''] = Inr () \<and>
   kb_search (ascii_stdout unavailable_runtime) ''The Earth is flat'' TOP_K = Inr (PList []) \<and>
   solve_endpoint (ascii_stdout unavailable_runtime) \<lparr>claim = ''The Earth is flat''\<rparr> =
     Inr (PDict
       [(''thought_process'', PStr ''No documents found in KB.''),
        (''final_answer'', PStr ''Partially True''),
        (''citation'', PStr []),
        (''retrieved_context_ids'', PList [])])"
proof -
  let ?w = "ascii_stdout unavailable_runtime"
  have logged: "py_print ?w [''Received claim:'', claim \<lparr>claim = ''The Earth is flat''\<rparr>] = Inr ()"
    by simp
  have failure: "search_failure ?w ''The Earth is flat'' TOP_K =
      Some (Exn HTTPError (show_nat 503 @ '' Server Error: Service Unavailable for url: '' @ KB_SEARCH_URL))"
    by (simp add: search_failure_def unavailable_runtime_def
        http_response_def raise_for_status_def)
  have "py_print ?w [''KB Search error:'',
      show_nat 503 @ '' Server Error: Service Unavailable for url: '' @ KB_SEARCH_URL] = Inr ()"
    by (simp add: KB_SEARCH_URL_def)
  with failure have empty: "kb_search ?w (claim \<lparr>claim = ''The Earth is flat''\<rparr>) TOP_K = Inr (PList [])"
    by (simp add: kb_search_failure)
  from logged empty solve_no_documents [OF logged empty] show ?thesis by simp
qed

section \<open>The knowledge-base client\<close>

text \<open>
  Claim C2, amended. When the search fails, that is when the POST raises (a transport
  failure, a timeout) or the answer has a status from 400 to 599, and the log line of
  the handler (line 49) can be written, \<^verbatim>\<open>kb_search\<close> returns the empty list; that is the
  value a genuinely empty result set gives, so the caller cannot tell the two apart. And
  \<^verbatim>\<open>kb_search\<close> returns a value whenever the log line for the exception of its
  \<^verbatim>\<open>try\<close> can be written.
\<close>

theorem kb_search_failure_empty:
  "(search_failure w query top_k = Some e \<and>
    py_print w [''KB Search error:'', exn_str e] = Inr () \<longrightarrow>
      kb_search w query top_k = Inr (PList []) \<and>
      (search_empty w' query top_k \<longrightarrow> kb_search w query top_k = kb_search w' query top_k)) \<and>
   ((\<forall>x. kb_search_try w query top_k = Inl x \<longrightarrow>
        py_print w [''KB Search error:'', exn_str x] = Inr ()) \<longrightarrow>
      (\<exists>v. kb_search w query top_k = Inr v))"
proof -
  have failed: "kb_search w query top_k = Inr (PList []) \<and>
      (search_empty w' query top_k \<longrightarrow> kb_search w query top_k = kb_search w' query top_k)"
    if "search_failure w query top_k = Some e"
      and "py_print w [''KB Search error:'', exn_str e] = Inr ()"
    using kb_search_failure [OF that] by (simp add: kb_search_empty)
  have total: "\<exists>v. kb_search w query top_k = Inr v"
    if "\<forall>x. kb_search_try w query top_k = Inl x \<longrightarrow>
        py_print w [''KB Search error:'', exn_str x] = Inr ()"
    using that by (cases "kb_search_try w query top_k") (simp_all add: kb_search_def)
  from failed total show ?thesis by blast
qed

text \<open>
  A service that answers 503, logged on an ASCII standard output, and one that answers
  200 with no results.
\<close>

theorem kb_search_failure_empty_witness:
  "search_failure (ascii_stdout unavailable_runtime) ''The Earth is flat'' TOP_K =
     Some (Exn HTTPError
       (show_nat 503 @ '' Server Error: Service Unavailable for url: '' @ KB_SEARCH_URL)) \<and>
   search_empty empty_kb_runtime ''The Earth is flat'' TOP_K \<and>
   kb_search (ascii_stdout unavailable_runtime) ''The Earth is flat'' TOP_K = Inr (PList []) \<and>
   kb_search empty_kb_runtime ''The Earth is flat'' TOP_K = Inr (PList [])"
proof -
  let ?w = "ascii_stdout unavailable_runtime"
  let ?e = "Exn HTTPError
       (show_nat 503 @ '' Server Error: Service Unavailable for url: '' @ KB_SEARCH_URL)"
  have failure: "search_failure ?w ''The Earth is flat'' TOP_K = Some ?e"
    by (simp add: search_failure_def unavailable_runtime_def http_response_def
        raise_for_status_def)
  have logged: "py_print ?w [''KB Search error:'', exn_str ?e] = Inr ()"
    by (simp add: KB_SEARCH_URL_def)
  have empty: "search_empty empty_kb_runtime ''The Earth is flat'' TOP_K"
    by (simp add: search_empty_def empty_kb_runtime_def http_response_def mock_loads_def)
  have raised: "kb_search_try ?w ''The Earth is flat'' TOP_K = Inl ?e"
    by (simp add: kb_search_try_def unavailable_runtime_def http_response_def
        raise_for_status_def)
  from failure logged empty raised
    kb_search_failure_empty [of ?w "''The Earth is flat''" TOP_K ?e empty_kb_runtime]
  show ?thesis by auto
qed

text \<open>
  The claim as first stated holds this for every status that is not a success and says
  that \<^verbatim>\<open>kb_search\<close> never raises. An answer with status 300 and a body of results
  is not rejected by \<^verbatim>\<open>raise_for_status\<close>, and its documents are returned. And on an
  ASCII standard output the log line of an exception whose text has a character beyond
  ASCII raises \<^verbatim>\<open>UnicodeEncodeError\<close> inside the handler, which leaves the function.
\<close>

theorem kb_search_redirect_answer:
  "kb_search redirect_runtime ''The Earth is flat'' TOP_K = Inr (PList [D1]) \<and>
   kb_search (ascii_stdout unreachable_runtime) ''The Earth is flat'' TOP_K =
     Inl (Exn UnicodeEncodeError ''ordinal not in range(128)'')"
proof -
  have answered: "kb_search redirect_runtime ''The Earth is flat'' TOP_K = Inr (PList [D1])"
    by (simp add: kb_search_def kb_search_try_def redirect_runtime_def http_response_def
        raise_for_status_def response_json_def mock_loads_one_result)
  have raised: "kb_search (ascii_stdout unreachable_runtime) ''The Earth is flat'' TOP_K =
     Inl (Exn UnicodeEncodeError ''ordinal not in range(128)'')"
    by (simp add: kb_search_def kb_search_try_def unreachable_runtime_def py_print_def
        cafe_def is_ascii_def)
  from answered raised show ?thesis by simp
qed

section \<open>Start-up\<close>

text \<open>
  Claim C3. The claim is that importing the module raises exactly when the credential is
  missing from the environment. Line 16 reads the name \<^verbatim>\<open>OPENAI_API_KEY\<close>, which nothing
  binds (the environment is never read, \<^verbatim>\<open>os\<close> is imported and not used), so the import
  raises \<^verbatim>\<open>NameError\<close> also when the credential is present: here with
  \<^verbatim>\<open>OPENAI_API_KEY=sk-test\<close> in the environment and no \<^verbatim>\<open>.env\<close> file.
\<close>

theorem module_init_with_credential:
  "module_init Map.empty [''OPENAI_API_KEY'' \<mapsto> ''sk-test''] =
     Inl (Exn NameError (''name '' @ squote @ ''OPENAI_API_KEY'' @ squote @ '' is not defined''))"
  by (simp add: module_init_def load_name_def module_globals_def)

text \<open>
  The same holds for every environment: the check of line 17 is never reached.
\<close>

lemma module_init_always_raises:
  "module_init dotenv environ =
     Inl (Exn NameError (''name '' @ squote @ ''OPENAI_API_KEY'' @ squote @ '' is not defined''))"
  by (simp add: module_init_def load_name_def module_globals_def)

section \<open>The reasoning client\<close>

text \<open>
  Claim C4, amended. For a list of documents (dictionaries with a \<^verbatim>\<open>doc_id\<close> and a
  \<^verbatim>\<open>content\<close>), when the completion call answers and \<^verbatim>\<open>json.loads\<close> rejects the text
  of its first choice with \<^verbatim>\<open>JSONDecodeError\<close>, \<^verbatim>\<open>analyze_with_gpt\<close> returns the
  verdict whose \<^verbatim>\<open>thought_process\<close> is the raw text, whose \<^verbatim>\<open>final_answer\<close> is
  "Partially True" and whose \<^verbatim>\<open>citation\<close> is the lines \<^verbatim>\<open>"{doc_id}: {content}"\<close> of all
  documents, in order, joined by \<^verbatim>\<open>"; "\<close>; the identifiers are attached. The list need
  not be non-empty for this.
\<close>

theorem analyze_invalid_json:
  assumes "list_all is_document ds"
    and "chat_completions_create w (issued_request w c ds) = Inr response"
    and "choices response = Some gpt_output # rest"
    and "json_loads w gpt_output = Inl e"
    and "exn_class e = JSONDecodeError"
  shows "analyze_with_gpt w c (PList ds) =
     Inr (PDict
       [(''thought_process'', PStr gpt_output),
        (''final_answer'', PStr ''Partially True''),
        (''citation'', PStr (separated_by ''; '' (map (document_text w) ds))),
        (''retrieved_context_ids'', PList (map document_id ds))])"
  using assms
  by (simp add: analyze_documents analyze_try_def issued_request_def py_first_def
      parse_output_def doc_lines_documents str_join_separated)

text \<open>
  Two documents and a completion in prose.
\<close>

theorem analyze_invalid_json_witness:
  "analyze_with_gpt (ascii_stdout (water_runtime (Inr \<lparr>choices = [Some ''The claim is true.'']\<rparr>)))
     ''Water boils at 100C at sea level'' (PList [D1, D2]) =
     Inr (PDict
       [(''thought_process'', PStr ''The claim is true.''),
        (''final_answer'', PStr ''Partially True''),
        (''citation'', PStr (''D1: Water boils at 100C at standard atmospheric pressure.''
           @ ''; '' @ ''D2: At altitude water boils below 100C.'')),
        (''retrieved_context_ids'', PList [PStr ''D1'', PStr ''D2''])])"
proof -
  let ?w = "ascii_stdout (water_runtime (Inr \<lparr>choices = [Some ''The claim is true.'']\<rparr>))"
  have call: "chat_completions_create ?w (issued_request ?w ''Water boils at 100C at sea level'' [D1, D2])
      = Inr \<lparr>choices = [Some ''The claim is true.'']\<rparr>"
    by (simp add: water_runtime_def)
  have first: "choices \<lparr>choices = [Some ''The claim is true.'']\<rparr> = Some ''The claim is true.'' # []"
    by simp
  have loads: "json_loads ?w ''The claim is true.'' =
      Inl (Exn JSONDecodeError ''Expecting value: line 1 column 1 (char 0)'')"
    by (simp add: water_runtime_def mock_loads_prose)
  have cls: "exn_class (Exn JSONDecodeError ''Expecting value: line 1 column 1 (char 0)'') = JSONDecodeError"
    by simp
  from analyze_invalid_json [OF documents call first loads cls]
  show ?thesis
    by (simp add: separated_by_def document_text_def document_id_def field_def D1_def D2_def
        py_format_def)
qed

text \<open>
  The claim as first stated holds this for every text that is not valid JSON. The text
  NaN is not valid JSON, but \<^verbatim>\<open>json.loads\<close> accepts it and returns a float; the item
  assignment of line 96 then raises, and the result is the verdict of the error handler,
  with an empty \<^verbatim>\<open>thought_process\<close> and an \<^verbatim>\<open>error\<close> field.
\<close>

theorem analyze_nan_completion:
  "analyze_with_gpt (water_runtime (Inr \<lparr>choices = [Some ''NaN'']\<rparr>))
     ''Water boils at 100C at sea level'' (PList [D1]) =
     Inr (PDict
       [(''thought_process'', PStr []),
        (''final_answer'', PStr ''Partially True''),
        (''citation'', PStr ''D1: Water boils at 100C at standard atmospheric pressure.''),
        (''retrieved_context_ids'', PList [PStr ''D1'']),
        (''error'', PStr (squote @ ''float'' @ squote @ '' object does not support item assignment''))])"
  by (simp add: analyze_with_gpt_def doc_ids_def doc_lines_def doc_line_def D1_def
      py_format_def analyze_try_def water_runtime_def py_first_def parse_output_def
      mock_loads_nan)

text \<open>
  Claim C5, amended. For a list of documents (dictionaries with a \<^verbatim>\<open>doc_id\<close> and a
  \<^verbatim>\<open>content\<close>), when the completion call raises and the log line of the handler (line
  100) can be written, \<^verbatim>\<open>analyze_with_gpt\<close> returns the verdict with an empty
  \<^verbatim>\<open>thought_process\<close>, \<^verbatim>\<open>final_answer\<close> "Partially True", the same joined citation, the
  identifiers of the documents, and an \<^verbatim>\<open>error\<close> field equal to \<^verbatim>\<open>str(e)\<close>, the
  description of the failure. The field is as long as that description: it is not empty
  exactly when the exception has a message.
\<close>

theorem analyze_completion_error:
  assumes "list_all is_document ds"
    and "chat_completions_create w (issued_request w c ds) = Inl e"
    and "py_print w [''GPT error:'', exn_str e] = Inr ()"
  shows "analyze_with_gpt w c (PList ds) =
     Inr (PDict
       [(''thought_process'', PStr []),
        (''final_answer'', PStr ''Partially True''),
        (''citation'', PStr (str_join ''; '' (map (document_text w) ds))),
        (''retrieved_context_ids'', PList (map document_id ds)),
        (''error'', PStr (exn_str e))])"
  using assms
  by (simp add: analyze_documents analyze_try_def issued_request_def error_fallback_def)

text \<open>
  Two documents and a completion service that is over its quota.
\<close>

theorem analyze_completion_error_witness:
  "analyze_with_gpt
     (ascii_stdout (water_runtime (Inl (Exn OtherException ''You exceeded your current quota.''))))
     ''Water boils at 100C at sea level'' (PList [D1, D2]) =
     Inr (PDict
       [(''thought_process'', PStr []),
        (''final_answer'', PStr ''Partially True''),
        (''citation'', PStr (''D1: Water boils at 100C at standard atmospheric pressure.''
           @ ''; '' @ ''D2: At altitude water boils below 100C.'')),
        (''retrieved_context_ids'', PList [PStr ''D1'', PStr ''D2'']),
        (''error'', PStr ''You exceeded your current quota.'')])"
proof -
  let ?w = "ascii_stdout (water_runtime (Inl (Exn OtherException ''You exceeded your current quota.'')))"
  have call: "chat_completions_create ?w (issued_request ?w ''Water boils at 100C at sea level'' [D1, D2])
      = Inl (Exn OtherException ''You exceeded your current quota.'')"
    by (simp add: water_runtime_def)
  have logged: "py_print ?w [''GPT error:'', exn_str (Exn OtherException ''You exceeded your current quota.'')] = Inr ()"
    by simp
  from analyze_completion_error [OF documents call logged]
  show ?thesis
    by (simp add: document_text_def document_id_def field_def D1_def D2_def py_format_def)
qed

text \<open>
  The claim as first stated asks for a non-empty \<^verbatim>\<open>error\<close> field after any error.
  An exception raised without a message (Python's \<^verbatim>\<open>Exception()\<close>, or a bare
  \<^verbatim>\<open>TimeoutError()\<close>) has the empty description, and then the field is the empty
  string. And when the description has a character the standard output cannot encode,
  the log line of the handler raises and no verdict is returned.
\<close>

theorem analyze_completion_error_description:
  "analyze_with_gpt (water_runtime (Inl (Exn OtherException [])))
     ''Water boils at 100C at sea level'' (PList [D1]) =
     Inr (PDict
       [(''thought_process'', PStr []),
        (''final_answer'', PStr ''Partially True''),
        (''citation'', PStr ''D1: Water boils at 100C at standard atmospheric pressure.''),
        (''retrieved_context_ids'', PList [PStr ''D1'']),
        (''error'', PStr [])]) \<and>
   analyze_with_gpt (ascii_stdout (water_runtime (Inl (Exn OtherException (''No route to '' @ cafe)))))
     ''Water boils at 100C at sea level'' (PList [D1]) =
     Inl (Exn UnicodeEncodeError ''ordinal not in range(128)'')"
proof -
  have silent: "analyze_with_gpt (water_runtime (Inl (Exn OtherException [])))
     ''Water boils at 100C at sea level'' (PList [D1]) =
     Inr (PDict
       [(''thought_process'', PStr []),
        (''final_answer'', PStr ''Partially True''),
        (''citation'', PStr ''D1: Water boils at 100C at standard atmospheric pressure.''),
        (''retrieved_context_ids'', PList [PStr ''D1'']),
        (''error'', PStr [])])"
    by (simp add: analyze_with_gpt_def doc_ids_def doc_lines_def doc_line_def D1_def
        py_format_def analyze_try_def water_runtime_def)
  have raised: "analyze_with_gpt
       (ascii_stdout (water_runtime (Inl (Exn OtherException (''No route to '' @ cafe)))))
       ''Water boils at 100C at sea level'' (PList [D1]) =
     Inl (Exn UnicodeEncodeError ''ordinal not in range(128)'')"
    by (simp add: analyze_with_gpt_def doc_ids_def doc_lines_def doc_line_def D1_def
        py_format_def analyze_try_def water_runtime_def py_print_def cafe_def is_ascii_def)
  from silent raised show ?thesis by simp
qed

text \<open>
  Claim C6. For a request that has passed the log line of line 115: when the knowledge
  base returns a non-empty list of documents (dictionaries with a \<^verbatim>\<open>doc_id\<close> and a
  \<^verbatim>\<open>content\<close>) and the completion is a JSON object, the response is that object with
  \<^verbatim>\<open>retrieved_context_ids\<close> set to the \<^verbatim>\<open>doc_id\<close> values of the documents, in the
  order the knowledge base returned them.
\<close>

theorem solve_valid_json_ids:
  assumes "py_print w [''Received claim:'', claim request] = Inr ()"
    and "kb_search w (claim request) TOP_K = Inr (PList ds)"
    and "ds \<noteq> []"
    and "list_all is_document ds"
    and "chat_completions_create w (issued_request w (claim request) ds) = Inr response"
    and "choices response = Some gpt_output # rest"
    and "json_loads w gpt_output = Inr (PDict kvs)"
  shows "solve_endpoint w request =
       Inr (PDict (AList.update ''retrieved_context_ids'' (PList (map document_id ds)) kvs))
     \<and> map_of (AList.update ''retrieved_context_ids'' (PList (map document_id ds)) kvs)
          ''retrieved_context_ids'' = Some (PList (map document_id ds))"
  using assms(1-3)
  by (simp add: solve_endpoint_def solve_try_def analyze_valid_object [OF assms(4-7)]
      update_Some_unfold)

text \<open>
  The scenario of the specification: the claim "Water boils at 100C at sea level", the
  document D1 and a completion that is a valid verdict.
\<close>

theorem solve_valid_json_ids_witness:
  "py_print (ascii_stdout (water_runtime (Inr \<lparr>choices = [Some verdict_text]\<rparr>)))
     [''Received claim:'', claim water_request] = Inr () \<and>
   kb_search (ascii_stdout (water_runtime (Inr \<lparr>choices = [Some verdict_text]\<rparr>)))
     (claim water_request) TOP_K = Inr (PList [D1]) \<and>
   solve_endpoint (ascii_stdout (water_runtime (Inr \<lparr>choices = [Some verdict_text]\<rparr>)))
     water_request =
     Inr (PDict
       [(''thought_process'', PStr ''...''),
        (''final_answer'', PStr ''True''),
        (''citation'', PStr ''D1''),
        (''retrieved_context_ids'', PList [PStr ''D1''])])"
proof -
  let ?w = "ascii_stdout (water_runtime (Inr \<lparr>choices = [Some verdict_text]\<rparr>))"
  have logged: "py_print ?w [''Received claim:'', claim water_request] = Inr ()"
    by (simp add: water_request_def)
  have kb: "kb_search ?w (claim water_request) TOP_K = Inr (PList [D1])"
    by (simp add: kb_search_def kb_search_try_def water_runtime_def http_response_def
        raise_for_status_def response_json_def mock_loads_one_result)
  have ne: "[D1] \<noteq> []" by simp
  have call: "chat_completions_create ?w (issued_request ?w (claim water_request) [D1])
      = Inr \<lparr>choices = [Some verdict_text]\<rparr>"
    by (simp add: water_runtime_def)
  have first: "choices \<lparr>choices = [Some verdict_text]\<rparr> = Some verdict_text # []"
    by simp
  have loads: "json_loads ?w verdict_text =
      Inr (PDict [(''thought_process'', PStr ''...''),
                  (''final_answer'', PStr ''True''),
                  (''citation'', PStr ''D1'')])"
    by (simp add: water_runtime_def mock_loads_verdict)
  from logged kb solve_valid_json_ids [OF logged kb ne D1_document call first loads]
  show ?thesis
    by (simp add: document_id_def field_def D1_def)
qed

text \<open>
  Claim C7, amended. For every claim and every list of documents that each have a
  \<^verbatim>\<open>doc_id\<close> and a \<^verbatim>\<open>content\<close>, whatever the completion call does and whether or not
  its output parses, \<^verbatim>\<open>analyze_with_gpt\<close> returns a dictionary whose
  \<^verbatim>\<open>retrieved_context_ids\<close> is the list of the documents' identifiers, provided the log
  line of its error handler can be written when that handler runs.
\<close>

theorem analyze_attaches_ids:
  assumes "list_all is_document ds"
    and "error_logged w c ds"
  shows "\<exists>kvs. analyze_with_gpt w c (PList ds) = Inr (PDict kvs) \<and>
     map_of kvs ''retrieved_context_ids'' = Some (PList (map document_id ds))"
proof (cases "analyze_try w (prompt_of c (str_join (nl @ nl) (map (document_text w) ds)))
             (PList ds) (map document_id ds)")
  case (Inl e)
  with assms(2) have "py_print w [''GPT error:'', exn_str e] = Inr ()"
    by (simp add: error_logged_def)
  with Inl show ?thesis
    by (simp add: analyze_documents [OF assms(1)] error_fallback_def)
next
  case (Inr result)
  then obtain v where "py_setitem v ''retrieved_context_ids'' (PList (map document_id ds)) = Inr result"
    by (auto simp: analyze_try_def and_then_def split: sum.splits)
  then obtain kvs where "result = PDict kvs"
    and "map_of kvs ''retrieved_context_ids'' = Some (PList (map document_id ds))"
    using setitem_ids by blast
  with Inr show ?thesis
    by (simp add: analyze_documents [OF assms(1)])
qed

text \<open>
  Two documents and a completion without choices, which ends in the error handler.
\<close>

theorem analyze_attaches_ids_witness:
  "list_all is_document [D1, D2] \<and>
   error_logged (ascii_stdout (water_runtime (Inr \<lparr>choices = []\<rparr>)))
     ''Water boils at 100C at sea level'' [D1, D2] \<and>
   (\<exists>kvs. analyze_with_gpt (ascii_stdout (water_runtime (Inr \<lparr>choices = []\<rparr>)))
            ''Water boils at 100C at sea level'' (PList [D1, D2]) = Inr (PDict kvs) \<and>
          map_of kvs ''retrieved_context_ids'' = Some (PList [PStr ''D1'', PStr ''D2'']))"
proof -
  let ?w = "ascii_stdout (water_runtime (Inr \<lparr>choices = []\<rparr>))"
  have logged: "error_logged ?w ''Water boils at 100C at sea level'' [D1, D2]"
    by (simp add: error_logged_def analyze_try_def water_runtime_def py_first_def)
  from documents logged
    analyze_attaches_ids [OF documents logged]
  show ?thesis
    by (simp add: document_id_def field_def D1_def D2_def)
qed

text \<open>
  The claim as first stated holds this for documents of any shape and for every outcome.
  A document without a \<^verbatim>\<open>doc_id\<close> makes line 56 raise \<^verbatim>\<open>KeyError\<close> before the
  \<^verbatim>\<open>try\<close> is entered, so the function returns no result at all; and neither does it
  when the log line of its error handler cannot be written.
\<close>

theorem analyze_raises_without_result:
  "analyze_with_gpt untitled_runtime ''Water boils at 100C at sea level'' (PList [untitled_doc]) =
     Inl (Exn KeyError (squote @ ''doc_id'' @ squote)) \<and>
   analyze_with_gpt
       (ascii_stdout (water_runtime (Inl (Exn OtherException (''Rate limit at '' @ cafe)))))
       ''Water boils at 100C at sea level'' (PList [D1]) =
     Inl (Exn UnicodeEncodeError ''ordinal not in range(128)'')"
proof -
  have shape: "analyze_with_gpt untitled_runtime ''Water boils at 100C at sea level''
       (PList [untitled_doc]) =
     Inl (Exn KeyError (squote @ ''doc_id'' @ squote))"
    by (simp add: analyze_with_gpt_def doc_ids_def untitled_doc_def)
  have raised: "analyze_with_gpt
       (ascii_stdout (water_runtime (Inl (Exn OtherException (''Rate limit at '' @ cafe)))))
       ''Water boils at 100C at sea level'' (PList [D1]) =
     Inl (Exn UnicodeEncodeError ''ordinal not in range(128)'')"
    by (simp add: analyze_with_gpt_def doc_ids_def doc_lines_def doc_line_def D1_def
        py_format_def analyze_try_def water_runtime_def py_print_def cafe_def is_ascii_def)
  from shape raised show ?thesis by simp
qed

text \<open>
  Claim C10. For a list of documents (dictionaries with a \<^verbatim>\<open>doc_id\<close> and a
  \<^verbatim>\<open>content\<close>), when the completion parses as JSON but the value is
  not an object, attaching \<^verbatim>\<open>retrieved_context_ids\<close> to it raises, and
  \<^verbatim>\<open>analyze_with_gpt\<close> returns the fallback of its error handler: an empty
  \<^verbatim>\<open>thought_process\<close>, "Partially True", the joined citation, the identifiers, and the
  description of that exception as \<^verbatim>\<open>error\<close>. The description is ASCII, so the log line
  of the handler is written on every standard output.
\<close>

theorem analyze_valid_json_not_object:
  assumes "list_all is_document ds"
    and "chat_completions_create w (issued_request w c ds) = Inr response"
    and "choices response = Some gpt_output # rest"
    and "json_loads w gpt_output = Inr v"
    and "\<not> is_dict v"
  shows "\<exists>e. py_setitem v ''retrieved_context_ids'' (PList (map document_id ds)) = Inl e \<and>
     analyze_with_gpt w c (PList ds) =
       Inr (PDict
         [(''thought_process'', PStr []),
          (''final_answer'', PStr ''Partially True''),
          (''citation'', PStr (str_join ''; '' (map (document_text w) ds))),
          (''retrieved_context_ids'', PList (map document_id ds)),
          (''error'', PStr (exn_str e))])"
proof -
  obtain e where e: "py_setitem v ''retrieved_context_ids'' (PList (map document_id ds)) = Inl e"
    using setitem_not_dict [OF assms(5)] by blast
  have "py_print w [''GPT error:'', exn_str e] = Inr ()"
    by (rule print_setitem_error [OF e])
  with e assms(1-4) show ?thesis
    by (simp add: analyze_documents analyze_try_def issued_request_def py_first_def
      parse_output_def error_fallback_def)
qed

text \<open>
  Two documents and a completion that is the JSON array \<^verbatim>\<open>[1, 2]\<close>.
\<close>

theorem analyze_valid_json_not_object_witness:
  "py_setitem (PList [PInt 1, PInt 2]) ''retrieved_context_ids'' (PList [PStr ''D1'', PStr ''D2'']) =
     Inl (Exn TypeError ''list indices must be integers or slices, not str'') \<and>
   analyze_with_gpt (ascii_stdout (water_runtime (Inr \<lparr>choices = [Some ''[1, 2]'']\<rparr>)))
     ''Water boils at 100C at sea level'' (PList [D1, D2]) =
     Inr (PDict
       [(''thought_process'', PStr []),
        (''final_answer'', PStr ''Partially True''),
        (''citation'', PStr (''D1: Water boils at 100C at standard atmospheric pressure.''
           @ ''; '' @ ''D2: At altitude water boils below 100C.'')),
        (''retrieved_context_ids'', PList [PStr ''D1'', PStr ''D2'']),
        (''error'', PStr ''list indices must be integers or slices, not str'')])"
proof -
  let ?w = "ascii_stdout (water_runtime (Inr \<lparr>choices = [Some ''[1, 2]'']\<rparr>))"
  have call: "chat_completions_create ?w (issued_request ?w ''Water boils at 100C at sea level'' [D1, D2])
      = Inr \<lparr>choices = [Some ''[1, 2]'']\<rparr>"
    by (simp add: water_runtime_def)
  have first: "choices \<lparr>choices = [Some ''[1, 2]'']\<rparr> = Some ''[1, 2]'' # []"
    by simp
  have loads: "json_loads ?w ''[1, 2]'' = Inr (PList [PInt 1, PInt 2])"
    by (simp add: water_runtime_def mock_loads_array)
  have array: "\<not> is_dict (PList [PInt 1, PInt 2])"
    by simp
  from analyze_valid_json_not_object [OF documents call first loads array]
  show ?thesis
    by (auto simp: document_text_def document_id_def field_def D1_def D2_def py_format_def)
qed

section \<open>The endpoint\<close>




end
